theory Spec2Isabelle
  imports Main
begin

section \<open>Strings\<close>

text \<open>
  A JavaScript string is modelled as a \<^typ>\<open>string\<close>, one \<^typ>\<open>char\<close> per code unit
  (the code units below 256). \<open>String.prototype.trim\<close> removes the white space and line
  terminator code units from both ends; in this range they are TAB, LF, VT, FF, CR, SPACE
  and NO-BREAK SPACE.
\<close>

definition isWhiteSpace :: "char \<Rightarrow> bool" where
  "isWhiteSpace c = (of_char c \<in> set [9, 10, 11, 12, 13, 32, 160 :: nat])"

definition trim :: "string \<Rightarrow> string" where
  "trim s = rev (dropWhile isWhiteSpace (rev (dropWhile isWhiteSpace s)))"

text \<open>Decimal rendering of a number inside a template literal.\<close>

function show_nat :: "nat \<Rightarrow> string" where
  "show_nat n =
     (if n < 10 then [char_of (48 + n)]
      else show_nat (n div 10) @ [char_of (48 + n mod 10)])"
  by pat_completeness auto
termination
  by (relation "measure id") auto

declare show_nat.simps [simp del]

section \<open>The assistant chat widget (OttoChatWidget.tsx)\<close>

subsection \<open>Data\<close>

datatype message_type = User | Assistant

record Message =
  type :: message_type
  content :: string

text \<open>The documents of an answer are received and never inspected.\<close>

typedecl Document

record ApiResponse =
  answer :: string
  documents :: "Document list"
  success :: bool

record HistoryEntry =
  query :: string
  response :: string

record Payload =
  p_query :: string
  conversation_history :: "HistoryEntry list"
  user_id :: string
  message_id :: string
  include_graph_data :: bool
  graph_id :: "string option"

record Request =
  req_url :: string
  authorization :: string
  body :: Payload

record Toast =
  title :: string
  description :: string
  variant :: string

text \<open>
  Whatever a \<open>throw\<close> or a rejected promise carries: an \<open>Error\<close> object with its
  message, or a value that is not an \<open>Error\<close>.
\<close>

datatype thrown = Error string | NotAnError

record Response =
  status :: nat
  json :: "thrown + ApiResponse"

text \<open>The Fetch API's \<open>response.ok\<close>: the status is in the range 200 to 299.\<close>

definition ok :: "Response \<Rightarrow> bool" where
  "ok r = (200 \<le> status r \<and> status r \<le> 299)"

record Session =
  access_token :: string

record AuthUser =
  userId :: string

text \<open>
  What one run of \<open>handleSubmit\<close> reads from outside the component: the Supabase client
  (absent, or the outcome of \<open>auth.getSession()\<close>), the signed-in user, the \<open>flowID\<close>
  search parameter, \<open>Date.now()\<close>, the \<open>NEXT_PUBLIC_BACKEND_URL\<close> variable and the
  outcome of \<open>fetch\<close> for a given request.
\<close>

record Env =
  supabase :: "(thrown + Session option) option"
  user :: "AuthUser option"
  flowID :: "string option"
  now :: nat
  NEXT_PUBLIC_BACKEND_URL :: "string option"
  fetch :: "Request \<Rightarrow> thrown + Response"

text \<open>
  The component's \<open>useState\<close> cells, and the toasts it has raised through \<open>useToast\<close>.
\<close>

record Widget =
  isOpen :: bool
  messages :: "Message list"
  inputValue :: string
  isProcessing :: bool
  includeGraphData :: bool
  toasts :: "Toast list"

subsection \<open>Mounting\<close>

definition initial :: Widget where
  "initial = \<lparr>isOpen = False, messages = [], inputValue = [], isProcessing = False,
     includeGraphData = False, toasts = []\<rparr>"

definition welcomeMessage :: Message where
  "welcomeMessage = \<lparr>type = Assistant,
     content = ''Hello im Otto! Ask me anything about AutoGPT!''\<rparr>"

text \<open>The first \<open>useEffect\<close>: it runs once, after the first render.\<close>

definition welcomeEffect :: "Widget \<Rightarrow> Widget" where
  "welcomeEffect w =
     (if length (messages w) = 0 then w\<lparr>messages := [welcomeMessage]\<rparr> else w)"

text \<open>
  The component renders nothing and holds no state unless \<open>NEXT_PUBLIC_BEHAVE_AS\<close> is
  \<open>CLOUD\<close>.
\<close>

definition OttoChatWidget :: "string option \<Rightarrow> Widget option" where
  "OttoChatWidget behave_as =
     (if behave_as \<noteq> Some ''CLOUD'' then None else Some (welcomeEffect initial))"

subsection \<open>Submitting\<close>

text \<open>
  The callback of \<open>messages.reduce\<close>: \<open>acc\<close> is the accumulator, \<open>i\<close> the index and
  \<open>arr\<close> the array itself.
\<close>

definition pairStep :: "Message list \<Rightarrow> HistoryEntry list \<Rightarrow> nat \<Rightarrow> HistoryEntry list" where
  "pairStep arr acc i =
     (if type (arr ! i) = User \<and> i + 1 < length arr \<and> type (arr ! (i + 1)) = Assistant
      then acc @ [\<lparr>query = content (arr ! i), response = content (arr ! (i + 1))\<rparr>]
      else acc)"

definition conversationHistory :: "Message list \<Rightarrow> HistoryEntry list" where
  "conversationHistory arr = foldl (pairStep arr) [] [0 ..< length arr]"

text \<open>\<open>x || d\<close> on an optional string: absent and empty are both falsy.\<close>

definition orElse :: "string option \<Rightarrow> string \<Rightarrow> string" where
  "orElse x d = (case x of None \<Rightarrow> d | Some v \<Rightarrow> if v = [] then d else v)"

definition orUndefined :: "string option \<Rightarrow> string option" where
  "orUndefined x = (case x of None \<Rightarrow> None | Some v \<Rightarrow> if v = [] then None else Some v)"

definition mkPayload :: "Env \<Rightarrow> Message list \<Rightarrow> bool \<Rightarrow> string \<Rightarrow> Payload" where
  "mkPayload env msgs incl userMessage =
     \<lparr>p_query = userMessage,
      conversation_history = conversationHistory msgs,
      user_id = orElse (map_option userId (user env)) ''anonymous'',
      message_id = show_nat (now env) @ ''-web'',
      include_graph_data = incl,
      graph_id = orUndefined (flowID env)\<rparr>"

definition mkRequest :: "Env \<Rightarrow> Session \<Rightarrow> Payload \<Rightarrow> Request" where
  "mkRequest env session payload =
     \<lparr>req_url = orElse (NEXT_PUBLIC_BACKEND_URL env) ''http://localhost:8006'' @ ''/api/otto/ask'',
      authorization = ''Bearer '' @ access_token session,
      body = payload\<rparr>"

definition processing :: Message where
  "processing = \<lparr>type = Assistant, content = ''Processing your question...''\<rparr>"

definition signInText :: string where
  "signInText = ''Please sign in to use the chat feature.''"

definition retryText :: string where
  "retryText = ''Sorry, there was an error processing your message. Please try again.''"

definition authToast :: Toast where
  "authToast = \<lparr>title = ''Authentication Error'',
     description = ''Please sign in to use the chat feature.'',
     variant = ''destructive''\<rparr>"

text \<open>\<open>prev.slice(0, -1)\<close> followed by one more element.\<close>

definition replaceLast :: "Message list \<Rightarrow> Message \<Rightarrow> Message list" where
  "replaceLast prev m = butlast prev @ [m]"

text \<open>
  The body of the \<open>try\<close> block. \<open>msgs\<close> and \<open>incl\<close> are the values of \<open>messages\<close> and
  \<open>includeGraphData\<close> the callback closed over (those of the render it belongs to); the
  state updates made before a \<open>throw\<close> stay, so the block returns the state together
  with what was thrown, if anything.
\<close>

definition tryBlock ::
  "Env \<Rightarrow> Message list \<Rightarrow> bool \<Rightarrow> string \<Rightarrow> Widget \<Rightarrow> Widget \<times> thrown option" where
  "tryBlock env msgs incl userMessage w =
     (case supabase env of
        None \<Rightarrow> (w, Some (Error ''Supabase client not initialized''))
      | Some getSession \<Rightarrow>
          (case getSession of
             Inl e \<Rightarrow> (w, Some e)
           | Inr None \<Rightarrow> (w, Some (Error ''No active session''))
           | Inr (Some session) \<Rightarrow>
               (let payload = mkPayload env msgs incl userMessage;
                    w1 = w\<lparr>includeGraphData := False\<rparr>;
                    w2 = w1\<lparr>messages := messages w1 @ [processing]\<rparr>
                in case fetch env (mkRequest env session payload) of
                     Inl e \<Rightarrow> (w2, Some e)
                   | Inr r \<Rightarrow>
                       if \<not> ok r then
                         if status r = 401
                         then (w2\<lparr>toasts := toasts w2 @ [authToast]\<rparr>,
                               Some (Error ''Authentication required''))
                         else (w2, Some (Error (''API request failed with status ''
                                 @ show_nat (status r))))
                       else
                         (case json r of
                            Inl e \<Rightarrow> (w2, Some e)
                          | Inr data \<Rightarrow>
                              (w2\<lparr>messages := replaceLast (messages w2)
                                   \<lparr>type = Assistant, content = answer data\<rparr>\<rparr>, None)))))"

text \<open>The message chosen in the \<open>catch\<close> block.\<close>

definition errorMessage :: "thrown \<Rightarrow> string" where
  "errorMessage e =
     (case e of
        Error m \<Rightarrow> if m = ''No active session'' then signInText else retryText
      | NotAnError \<Rightarrow> retryText)"

definition catchBlock :: "thrown \<Rightarrow> Widget \<Rightarrow> Widget" where
  "catchBlock e w =
     w\<lparr>messages := replaceLast (messages w) \<lparr>type = Assistant, content = errorMessage e\<rparr>\<rparr>"

text \<open>The early \<open>return\<close> of \<open>handleSubmit\<close>.\<close>

definition ignored :: "Widget \<Rightarrow> bool" where
  "ignored w = (trim (inputValue w) = [] \<or> isProcessing w)"

text \<open>
  One run of \<open>handleSubmit\<close> from start to \<open>finally\<close>, on the state of the render the
  callback belongs to, with no other event handled in between. Preventing the form's
  default action and logging the error to the console change nothing of this state and
  are left out.
\<close>

definition handleSubmit :: "Env \<Rightarrow> Widget \<Rightarrow> Widget" where
  "handleSubmit env w =
     (if ignored w then w
      else
        let userMessage = trim (inputValue w);
            w1 = w\<lparr>inputValue := [], isProcessing := True,
                   messages := messages w @ [\<lparr>type = User, content = userMessage\<rparr>]\<rparr>;
            (w2, thrown) = tryBlock env (messages w) (includeGraphData w) userMessage w1;
            w3 = (case thrown of None \<Rightarrow> w2 | Some e \<Rightarrow> catchBlock e w2)
        in w3\<lparr>isProcessing := False\<rparr>)"

subsection \<open>The other event handlers\<close>

text \<open>
  The events the rendered widget reacts to: the open and close buttons, typing into the
  input, the graph-data toggle and the form's submit. Every handler is allowed in every
  state (the view disables some of them while a request is in flight, which only removes
  runs).
\<close>

datatype event = OpenChat | CloseChat | Typed string | ToggleGraphData | Submit Env

fun dispatch :: "Widget \<Rightarrow> event \<Rightarrow> Widget" where
  "dispatch w OpenChat = w\<lparr>isOpen := True\<rparr>"
| "dispatch w CloseChat = w\<lparr>isOpen := False\<rparr>"
| "dispatch w (Typed v) = w\<lparr>inputValue := v\<rparr>"
| "dispatch w ToggleGraphData = w\<lparr>includeGraphData := \<not> includeGraphData w\<rparr>"
| "dispatch w (Submit env) = handleSubmit env w"

definition run :: "event list \<Rightarrow> Widget \<Rightarrow> Widget" where
  "run es w = foldl dispatch w es"

subsection \<open>The pairing, as the specification words it\<close>

text \<open>
  Each user message is paired with the assistant message that immediately follows it; a
  user message that is not immediately followed by an assistant message gives no pair.
\<close>

fun pairing :: "Message list \<Rightarrow> HistoryEntry list" where
  "pairing (m # n # rest) =
     (if type m = User \<and> type n = Assistant
      then \<lparr>query = content m, response = content n\<rparr> # pairing (n # rest)
      else pairing (n # rest))"
| "pairing _ = []"

subsection \<open>Sample inputs\<close>

definition session0 :: Session where
  "session0 = \<lparr>access_token = ''token''\<rparr>"

definition answering :: "Request \<Rightarrow> thrown + Response" where
  "answering req =
     Inr \<lparr>status = 200,
          json = Inr \<lparr>answer = ''Use the builder.'', documents = [], success = True\<rparr>\<rparr>"

definition env200 :: Env where
  "env200 = \<lparr>supabase = Some (Inr (Some session0)), user = Some \<lparr>userId = ''u1''\<rparr>,
     flowID = None, now = 1700, NEXT_PUBLIC_BACKEND_URL = None, fetch = answering\<rparr>"

definition env401 :: Env where
  "env401 = env200\<lparr>fetch := (\<lambda>req. Inr \<lparr>status = 401, json = Inl NotAnError\<rparr>)\<rparr>"

definition envNoSession :: Env where
  "envNoSession = env200\<lparr>supabase := Some (Inr None)\<rparr>"

definition asking :: Widget where
  "asking = \<lparr>isOpen = True, messages = [welcomeMessage], inputValue = '' How do I start? '',
     isProcessing = False, includeGraphData = True, toasts = []\<rparr>"

section \<open>The credit-state controller (useCredits)\<close>

text \<open>
  The API client and its types are not among the sources. A transaction and a timestamp
  are type parameters; the backend is a state \<open>'w\<close> that every call reads and changes, and
  every call either rejects with what it throws or resolves with its response. Amounts are
  passed through unchanged and are modelled as integers.
\<close>

record AutoTopUpConfig =
  amount :: int
  threshold :: int

record ('tx, 't) TransactionHistory =
  transactions :: "'tx list"
  next_transaction_time :: "'t option"

record ('tx, 't, 'w) AutoGPTServerAPI =
  getAutoTopUpConfig :: "'w \<Rightarrow> (thrown + AutoTopUpConfig) \<times> 'w"
  setAutoTopUpConfig :: "AutoTopUpConfig \<Rightarrow> 'w \<Rightarrow> (thrown + unit) \<times> 'w"
  getTransactionHistory ::
    "'t option \<Rightarrow> nat \<Rightarrow> 'w \<Rightarrow> (thrown + ('tx, 't) TransactionHistory) \<times> 'w"

record ('tx, 't) Credits =
  credits :: "int option"
  autoTopUpConfig :: "AutoTopUpConfig option"
  transactionHistory :: "('tx, 't) TransactionHistory"

definition useCredits :: "('tx, 't) Credits" where
  "useCredits = \<lparr>credits = None, autoTopUpConfig = None,
     transactionHistory = \<lparr>transactions = [], next_transaction_time = None\<rparr>\<rparr>"

text \<open>
  Each callback takes the hook's state and the backend and returns how its promise
  settles, the state and the backend. An \<open>await\<close> of a rejected call throws, so the
  statements after it do not run.
\<close>

definition fetchAutoTopUpConfig ::
  "('tx, 't, 'w) AutoGPTServerAPI \<Rightarrow> ('tx, 't) Credits \<times> 'w
     \<Rightarrow> (thrown + unit) \<times> ('tx, 't) Credits \<times> 'w" where
  "fetchAutoTopUpConfig api = (\<lambda>(s, w).
     case getAutoTopUpConfig api w of
       (Inl e, w') \<Rightarrow> (Inl e, s, w')
     | (Inr res, w') \<Rightarrow> (Inr (), s\<lparr>autoTopUpConfig := Some res\<rparr>, w'))"

text \<open>
  \<open>updateAutoTopUpConfig\<close> awaits the write and then calls \<open>fetchAutoTopUpConfig\<close>
  without awaiting it: a rejected read does not reject the update's own promise. The
  state returned is the one held once the read it started has settled.
\<close>

definition updateAutoTopUpConfig ::
  "('tx, 't, 'w) AutoGPTServerAPI \<Rightarrow> int \<Rightarrow> int \<Rightarrow> ('tx, 't) Credits \<times> 'w
     \<Rightarrow> (thrown + unit) \<times> ('tx, 't) Credits \<times> 'w" where
  "updateAutoTopUpConfig api amt thr = (\<lambda>(s, w).
     case setAutoTopUpConfig api \<lparr>amount = amt, threshold = thr\<rparr> w of
       (Inl e, w') \<Rightarrow> (Inl e, s, w')
     | (Inr u, w') \<Rightarrow> (Inr (), snd (fetchAutoTopUpConfig api (s, w'))))"

text \<open>
  \<open>fetchTransactionHistory\<close> is a \<open>useCallback\<close> on \<open>[api, transactionHistory]\<close>: the
  callback closes over the \<open>transactionHistory\<close> of the render that created it,
  \<open>captured\<close> here. It reads the cursor and the accumulated transactions from there, not
  from the state held when it runs, and it overwrites the state (\<open>setTransactionHistory\<close>
  is given a value, not an updater).
\<close>

definition fetchTransactionHistory ::
  "('tx, 't, 'w) AutoGPTServerAPI \<Rightarrow> ('tx, 't) TransactionHistory
     \<Rightarrow> ('tx, 't) Credits \<times> 'w \<Rightarrow> (thrown + unit) \<times> ('tx, 't) Credits \<times> 'w" where
  "fetchTransactionHistory api captured = (\<lambda>(s, w).
     case getTransactionHistory api (next_transaction_time captured) 20 w of
       (Inl e, w') \<Rightarrow> (Inl e, s, w')
     | (Inr res, w') \<Rightarrow>
         (Inr (),
          s\<lparr>transactionHistory :=
              \<lparr>transactions = transactions captured @ transactions res,
               next_transaction_time = next_transaction_time res\<rparr>\<rparr>,
          w'))"

text \<open>
  A sequence of calls of \<open>fetchTransactionHistory\<close>. \<open>renders\<close> holds the
  \<open>transactionHistory\<close> of every render so far, the current one first; each of them has
  its own callback. A call is given by the age \<open>j\<close> of the callback it goes through:
  \<open>0\<close> is the callback of the current render, \<open>j\<close> the one of the render \<open>j\<close> state
  updates ago, which a caller still holds when it has not picked up the newer ones (a
  call started while earlier calls are in flight goes through such a callback: it cannot
  have captured the updates they will make). A call that resolves sets the state and so
  adds a render; a rejected call adds none. The results are returned in call order;
  \<open>None\<close> when a call names a render that never was.
\<close>

fun fetchSeq ::
  "('tx, 't, 'w) AutoGPTServerAPI \<Rightarrow> nat list \<Rightarrow> ('tx, 't) TransactionHistory list
     \<Rightarrow> ('tx, 't) Credits \<times> 'w
     \<Rightarrow> ((thrown + unit) list \<times> ('tx, 't) Credits \<times> 'w) option" where
  "fetchSeq api [] renders sw = Some ([], sw)"
| "fetchSeq api (j # js) renders sw =
     (if j < length renders
      then (case fetchTransactionHistory api (renders ! j) sw of
              (r, s', w') \<Rightarrow>
                map_option (\<lambda>(rs, sw''). (r # rs, sw''))
                  (fetchSeq api js
                     (case r of Inl e \<Rightarrow> renders | Inr u \<Rightarrow> transactionHistory s' # renders)
                     (s', w')))
      else None)"

text \<open>The calls \<open>js\<close> made from a state whose render is the only one so far.\<close>

definition fetchCalls ::
  "('tx, 't, 'w) AutoGPTServerAPI \<Rightarrow> nat list \<Rightarrow> ('tx, 't) Credits \<times> 'w
     \<Rightarrow> ((thrown + unit) list \<times> ('tx, 't) Credits \<times> 'w) option" where
  "fetchCalls api js = (\<lambda>(s, w). fetchSeq api js [transactionHistory s] (s, w))"

text \<open>
  The pages a backend returns to \<open>n\<close> successive requests of page size 20, the first with
  the cursor \<open>c\<close> and each later one with the cursor returned by the one before it;
  \<open>None\<close> when one of the requests is rejected.
\<close>

fun pagesReturned ::
  "nat \<Rightarrow> ('tx, 't, 'w) AutoGPTServerAPI \<Rightarrow> 't option \<Rightarrow> 'w
     \<Rightarrow> ('tx, 't) TransactionHistory list option" where
  "pagesReturned 0 api c w = Some []"
| "pagesReturned (Suc n) api c w =
     (case getTransactionHistory api c 20 w of
        (Inl e, w') \<Rightarrow> None
      | (Inr page, w') \<Rightarrow>
          map_option ((#) page) (pagesReturned n api (next_transaction_time page) w'))"

subsection \<open>Sample backends\<close>

text \<open>A backend whose state is the log of the calls it has received.\<close>

datatype call =
  SetAutoTopUpConfig AutoTopUpConfig
  | GetAutoTopUpConfig
  | GetTransactionHistory "nat option" nat

definition loggingApi :: "(string, nat, call list) AutoGPTServerAPI" where
  "loggingApi =
     \<lparr>getAutoTopUpConfig =
        (\<lambda>w. (Inr \<lparr>amount = 500, threshold = 100\<rparr>, w @ [GetAutoTopUpConfig])),
      setAutoTopUpConfig = (\<lambda>c w. (Inr (), w @ [SetAutoTopUpConfig c])),
      getTransactionHistory = (\<lambda>c n w.
        (Inr (if c = None
              then \<lparr>transactions = [''top-up'', ''usage''], next_transaction_time = Some 7\<rparr>
              else \<lparr>transactions = [''grant''], next_transaction_time = None\<rparr>),
         w @ [GetTransactionHistory c n]))\<rparr>"

definition rejectingApi :: "(string, nat, call list) AutoGPTServerAPI" where
  "rejectingApi = loggingApi\<lparr>setAutoTopUpConfig :=
     (\<lambda>c w. (Inl (Error ''Network Error''), w @ [SetAutoTopUpConfig c]))\<rparr>"

definition unreadableApi :: "(string, nat, call list) AutoGPTServerAPI" where
  "unreadableApi = loggingApi\<lparr>getAutoTopUpConfig :=
     (\<lambda>w. (Inl (Error ''Network Error''), w @ [GetAutoTopUpConfig]))\<rparr>"

section \<open>The selection wizard step (onboarding/4-agent/page.tsx)\<close>

text \<open>
  \<open>StoreAgentDetails\<close> is not among the sources; the page reads its \<open>slug\<close> and
  \<open>creator\<close>, and whatever else it holds is the record's extension.
\<close>

record StoreAgentDetails =
  slug :: string
  creator :: string

text \<open>
  The wizard state shared between the steps: the two fields this page writes, and
  whatever the other steps keep there as the record's extension.
\<close>

record OnboardingState =
  selectedAgentSlug :: "string option"
  selectedAgentCreator :: "string option"

text \<open>
  Modelled from the spec: \<open>setState\<close> of \<open>useOnboarding\<close> (\<open>app/onboarding/layout\<close>) is
  not among the sources. The specification says that selecting a card writes its
  identifier and the associated grouping identifier into the shared wizard state: the
  fields of the object passed to \<open>setState\<close> are written, the rest of the state is kept.
\<close>

definition setState ::
  "OnboardingState \<Rightarrow> 'a OnboardingState_scheme \<Rightarrow> 'a OnboardingState_scheme" where
  "setState upd st =
     st\<lparr>selectedAgentSlug := selectedAgentSlug upd,
        selectedAgentCreator := selectedAgentCreator upd\<rparr>"

text \<open>
  The \<open>onClick\<close> of card \<open>i\<close>. Before the agents have arrived \<open>agents[i]\<close> is
  \<open>undefined\<close> and reading its \<open>slug\<close> throws: the handler leaves no state (\<open>None\<close>).
\<close>

definition onClick ::
  "'b StoreAgentDetails_scheme list \<Rightarrow> nat \<Rightarrow> 'a OnboardingState_scheme
     \<Rightarrow> 'a OnboardingState_scheme option" where
  "onClick agents i st =
     (if i < length agents
      then Some (setState \<lparr>selectedAgentSlug = Some (slug (agents ! i)),
                           selectedAgentCreator = Some (creator (agents ! i))\<rparr> st)
      else None)"

definition sampleAgents :: "StoreAgentDetails list" where
  "sampleAgents = [\<lparr>slug = ''subtractor'', creator = ''bright-eagle-40613''\<rparr>,
                   \<lparr>slug = ''power'', creator = ''autogpt''\<rparr>]"

definition noSelection :: OnboardingState where
  "noSelection = \<lparr>selectedAgentSlug = None, selectedAgentCreator = None\<rparr>"

section \<open>Properties of the chat widget\<close>

lemma all_dropWhile: "(\<forall>x \<in> set (dropWhile P s). P x) \<longleftrightarrow> (\<forall>x \<in> set s. P x)"
  by (induction s) auto

lemma trim_empty_iff: "trim s = [] \<longleftrightarrow> (\<forall>c \<in> set s. isWhiteSpace c)"
  by (simp add: trim_def dropWhile_eq_Nil_conv all_dropWhile)

lemmas widget_eval = handleSubmit_def ignored_def asking_def env401_def env200_def
  envNoSession_def trim_def isWhiteSpace_def tryBlock_def Let_def session0_def ok_def
  catchBlock_def replaceLast_def errorMessage_def welcomeMessage_def processing_def
  signInText_def retryText_def answering_def authToast_def

lemma not_ignored_asking: "\<not> ignored asking"
  by (simp add: ignored_def asking_def trim_def isWhiteSpace_def)

subsection \<open>The guard\<close>

text \<open>
  Claim C7. A submit whose input is empty or consists of white space only, and a submit
  made while \<open>isProcessing\<close> is set, returns at the guard: the transcript is the one
  before the call (no user message, no placeholder), and so is the rest of the state.
\<close>

theorem ignored_submit_keeps_transcript:
  "(\<forall>c \<in> set (inputValue w). isWhiteSpace c) \<or> isProcessing w \<Longrightarrow>
     messages (handleSubmit env w) = messages w \<and> handleSubmit env w = w"
  by (simp add: handleSubmit_def ignored_def trim_empty_iff)

theorem ignored_submit_keeps_transcript_witness:
  "list_all isWhiteSpace (inputValue (asking\<lparr>inputValue := ''  ''\<rparr>))
   \<and> messages (handleSubmit env200 (asking\<lparr>inputValue := ''  ''\<rparr>)) = [welcomeMessage]
   \<and> isProcessing (asking\<lparr>isProcessing := True\<rparr>)
   \<and> messages (handleSubmit env200 (asking\<lparr>isProcessing := True\<rparr>)) = [welcomeMessage]"
proof -
  have blank: "\<forall>c \<in> set (inputValue (asking\<lparr>inputValue := ''  ''\<rparr>)). isWhiteSpace c"
    by (simp add: isWhiteSpace_def)
  have busy: "isProcessing (asking\<lparr>isProcessing := True\<rparr>)"
    by simp
  from ignored_submit_keeps_transcript [of "asking\<lparr>inputValue := ''  ''\<rparr>" env200]
       ignored_submit_keeps_transcript [of "asking\<lparr>isProcessing := True\<rparr>" env200]
       blank busy
  show ?thesis by (simp add: asking_def)
qed

text \<open>
  Claim C9. A submit that passes the guard ends with \<open>isProcessing\<close> reset, whatever the
  session lookup and the backend call did; afterwards the guard rejects a submit only
  for a blank input.
\<close>

theorem submit_resets_isProcessing:
  "\<not> ignored w \<Longrightarrow>
     isProcessing (handleSubmit env w) = False \<and>
     (ignored ((handleSubmit env w)\<lparr>inputValue := t\<rparr>) \<longleftrightarrow> trim t = [])"
proof -
  assume "\<not> ignored w"
  then have "isProcessing (handleSubmit env w) = False"
    by (simp add: handleSubmit_def Let_def split: prod.splits)
  then show ?thesis by (simp add: ignored_def)
qed

theorem submit_resets_isProcessing_witness:
  "\<not> ignored asking \<and> isProcessing (handleSubmit env401 asking) = False
   \<and> \<not> ignored ((handleSubmit env401 asking)\<lparr>inputValue := ''again''\<rparr>)"
proof -
  have "trim ''again'' \<noteq> []"
    by (simp add: trim_def isWhiteSpace_def)
  with submit_resets_isProcessing [OF not_ignored_asking, of env401 "''again''"]
       not_ignored_asking
  show ?thesis by simp
qed

subsection \<open>The transcript after a submit\<close>

text \<open>
  What the \<open>try\<close> block leaves in the transcript: nothing when it threw before the
  placeholder was appended, the placeholder when it threw after that, the answer in
  the placeholder's place when it did not throw.
\<close>

lemma tryBlock_messages:
  "tryBlock env msgs incl um w1 = (w2, t) \<Longrightarrow>
     (t \<noteq> None \<and> messages w2 = messages w1) \<or>
     (t \<noteq> None \<and> messages w2 = messages w1 @ [processing]) \<or>
     (\<exists>a. t = None \<and> messages w2 = messages w1 @ [\<lparr>type = Assistant, content = a\<rparr>])"
  by (auto simp: tryBlock_def Let_def replaceLast_def
           split: option.splits sum.splits if_splits)

lemma handleSubmit_appends:
  assumes "\<not> ignored w"
  shows "\<exists>ms. ms \<noteq> [] \<and> messages (handleSubmit env w) = messages w @ ms"
proof -
  obtain w2 t where tb:
    "tryBlock env (messages w) (includeGraphData w) (trim (inputValue w))
       (w\<lparr>inputValue := [], isProcessing := True,
          messages := messages w @ [\<lparr>type = User, content = trim (inputValue w)\<rparr>]\<rparr>)
     = (w2, t)"
    by fastforce
  from tryBlock_messages [OF tb] assms tb show ?thesis
    by (auto simp: handleSubmit_def Let_def catchBlock_def replaceLast_def butlast_append
             split: option.splits)
qed

lemma handleSubmit_prefix: "\<exists>ms. messages (handleSubmit env w) = messages w @ ms"
proof (cases "ignored w")
  case True
  then show ?thesis by (simp add: handleSubmit_def)
next
  case False
  from handleSubmit_appends [OF False, of env] show ?thesis by blast
qed

text \<open>A 401 from the backend, for every state and every session.\<close>

lemma reply_to_401:
  assumes "\<not> ignored w" and "supabase env = Some (Inr (Some session))"
    and "fetch env (mkRequest env session
           (mkPayload env (messages w) (includeGraphData w) (trim (inputValue w)))) = Inr r"
    and "status r = 401"
  shows "messages (handleSubmit env w) =
     messages w @ [\<lparr>type = User, content = trim (inputValue w)\<rparr>,
                   \<lparr>type = Assistant, content = retryText\<rparr>]"
  using assms
  by (simp add: handleSubmit_def tryBlock_def Let_def ok_def catchBlock_def replaceLast_def
        errorMessage_def butlast_append)

text \<open>A missing session, for every state.\<close>

lemma reply_without_session:
  assumes "\<not> ignored w" and "supabase env = Some (Inr None)"
  shows "messages (handleSubmit env w) =
     messages w @ [\<lparr>type = Assistant, content = signInText\<rparr>]"
  using assms
  by (simp add: handleSubmit_def tryBlock_def Let_def catchBlock_def replaceLast_def
        errorMessage_def)

text \<open>
  Claim C1. The backend answers 401 to the question \<open>How do I start?\<close>: the toast with
  the sign-in text is raised, and the placeholder is replaced by the retry text, which
  is not the sign-in text. The \<open>catch\<close> block recognises only the message
  \<open>No active session\<close>, and the 401 branch throws \<open>Authentication required\<close>.
\<close>

theorem unauthorized_reply_is_retry_text:
  "messages (handleSubmit env401 asking) =
     [welcomeMessage, \<lparr>type = User, content = ''How do I start?''\<rparr>,
      \<lparr>type = Assistant, content = retryText\<rparr>]
   \<and> toasts (handleSubmit env401 asking) = [authToast]
   \<and> description authToast = signInText
   \<and> retryText \<noteq> signInText"
  by (simp add: widget_eval)

text \<open>
  Claim C5. No session is available for the question \<open>How do I start?\<close>: the \<open>try\<close>
  block throws \<open>No active session\<close> before the placeholder is appended, so the
  \<open>catch\<close> block removes the user's message, the last element at that point, and the
  sign-in text follows the welcome message directly.
\<close>

theorem missing_session_drops_user_message:
  "snd (tryBlock envNoSession (messages asking) (includeGraphData asking)
          (trim (inputValue asking))
          (asking\<lparr>inputValue := [], isProcessing := True,
             messages := messages asking
               @ [\<lparr>type = User, content = trim (inputValue asking)\<rparr>]\<rparr>))
     = Some (Error ''No active session'')
   \<and> messages (handleSubmit envNoSession asking) =
       [welcomeMessage, \<lparr>type = Assistant, content = signInText\<rparr>]
   \<and> \<lparr>type = User, content = ''How do I start?''\<rparr>
       \<notin> set (messages (handleSubmit envNoSession asking))"
  by (simp add: widget_eval)

subsection \<open>The graph-data flag\<close>

lemma tryBlock_flag:
  "includeGraphData (fst (tryBlock env msgs incl um w)) =
     (if (\<exists>session. supabase env = Some (Inr (Some session))) then False
      else includeGraphData w)"
  by (simp add: tryBlock_def Let_def split: option.splits sum.splits)

text \<open>
  Claim C6, as stated, fails: with the flag set and no session, the submit ends with
  the flag still set.
\<close>

theorem flag_kept_without_session:
  "includeGraphData asking \<and> \<not> ignored asking
   \<and> includeGraphData (handleSubmit envNoSession asking)"
  by (simp add: widget_eval)

text \<open>
  Claim C6, amended. The flag is cleared where the payload that carries it is built: a
  submit that passes the guard and obtains a session ends with the flag cleared, whatever
  the backend call does; every other submit leaves the flag as it was.
\<close>

theorem flag_cleared_once_session_obtained:
  "includeGraphData (handleSubmit env w) =
     (if \<not> ignored w \<and> (\<exists>session. supabase env = Some (Inr (Some session))) then False
      else includeGraphData w)"
proof (cases "ignored w")
  case True
  then show ?thesis by (simp add: handleSubmit_def)
next
  case False
  obtain w2 t where tb:
    "tryBlock env (messages w) (includeGraphData w) (trim (inputValue w))
       (w\<lparr>inputValue := [], isProcessing := True,
          messages := messages w @ [\<lparr>type = User, content = trim (inputValue w)\<rparr>]\<rparr>)
     = (w2, t)"
    by fastforce
  from tryBlock_flag [of env "messages w" "includeGraphData w" "trim (inputValue w)"
      "w\<lparr>inputValue := [], isProcessing := True,
         messages := messages w @ [\<lparr>type = User, content = trim (inputValue w)\<rparr>]\<rparr>"] tb
  have "includeGraphData w2 =
     (if (\<exists>session. supabase env = Some (Inr (Some session))) then False
      else includeGraphData w)"
    by simp
  with False tb show ?thesis
    by (simp add: handleSubmit_def Let_def catchBlock_def split: option.splits)
qed

theorem flag_cleared_once_session_obtained_witness:
  "includeGraphData asking \<and> \<not> ignored asking
   \<and> supabase env401 = Some (Inr (Some session0))
   \<and> includeGraphData (handleSubmit env401 asking) = False
   \<and> supabase env200 = Some (Inr (Some session0))
   \<and> includeGraphData (handleSubmit env200 asking) = False"
proof -
  have s1: "supabase env401 = Some (Inr (Some session0))"
    by (simp add: env401_def env200_def)
  have s2: "supabase env200 = Some (Inr (Some session0))"
    by (simp add: env200_def)
  from flag_cleared_once_session_obtained [of env401 asking]
       flag_cleared_once_session_obtained [of env200 asking]
       s1 s2 not_ignored_asking
  show ?thesis by (simp add: asking_def)
qed

subsection \<open>The history sent with a question\<close>

lemma pairStep_at:
  "pairStep (pre @ m # rest) acc (length pre) =
     (case rest of
        [] \<Rightarrow> acc
      | n # rest' \<Rightarrow>
          if type m = User \<and> type n = Assistant
          then acc @ [\<lparr>query = content m, response = content n\<rparr>] else acc)"
  by (cases rest) (simp_all add: pairStep_def nth_append)

text \<open>The reduce, from index \<open>length pre\<close> on, adds the pairs of the rest of the array.\<close>

lemma foldl_pairStep:
  "foldl (pairStep (pre @ rest)) acc [length pre ..< length (pre @ rest)]
     = acc @ pairing rest"
proof (induction rest arbitrary: pre acc)
  case Nil
  then show ?case by simp
next
  case (Cons m rest)
  have upt: "[length pre ..< length (pre @ m # rest)] =
      length pre # [Suc (length pre) ..< length (pre @ m # rest)]"
    by (rule upt_conv_Cons) simp
  have ih: "foldl (pairStep (pre @ m # rest)) acc'
       [Suc (length pre) ..< length (pre @ m # rest)] = acc' @ pairing rest" for acc'
    using Cons.IH [of "pre @ [m]" acc'] by (simp del: upt_Suc)
  have "foldl (pairStep (pre @ m # rest)) acc [length pre ..< length (pre @ m # rest)]
     = pairStep (pre @ m # rest) acc (length pre) @ pairing rest"
    unfolding upt by (simp only: foldl_Cons ih)
  then show ?case
    by (cases rest) (simp_all add: pairStep_at del: upt_Suc)
qed

lemma conversationHistory_pairing: "conversationHistory arr = pairing arr"
  using foldl_pairStep [of "[]" arr "[]"] by (simp add: conversationHistory_def)

lemma pairing_trailing_user: "type u = User \<Longrightarrow> pairing (arr @ [u]) = pairing arr"
  by (induction arr rule: pairing.induct) auto

text \<open>
  Claim C3. The reduce of \<open>handleSubmit\<close> computes the pairing of the specification on
  every transcript; on \<open>[user A, assistant B, user C, assistant D]\<close> it gives the two
  pairs \<open>(A, B)\<close> and \<open>(C, D)\<close>; and a user message at the end of the transcript adds
  no pair.
\<close>

theorem conversationHistory_pairs:
  "conversationHistory arr = pairing arr
   \<and> conversationHistory
       [\<lparr>type = User, content = A\<rparr>, \<lparr>type = Assistant, content = B\<rparr>,
        \<lparr>type = User, content = C\<rparr>, \<lparr>type = Assistant, content = D\<rparr>]
     = [\<lparr>query = A, response = B\<rparr>, \<lparr>query = C, response = D\<rparr>]
   \<and> conversationHistory (arr @ [\<lparr>type = User, content = m\<rparr>]) = conversationHistory arr"
  by (simp add: conversationHistory_pairing pairing_trailing_user)

subsection \<open>The welcome message\<close>

lemma dispatch_prefix: "\<exists>ms. messages (dispatch w e) = messages w @ ms"
  by (cases e) (simp_all add: handleSubmit_prefix)

text \<open>No run of events removes or changes what the transcript already holds.\<close>

lemma run_prefix: "\<exists>ms. messages (run es w) = messages w @ ms"
proof (induction es arbitrary: w)
  case Nil
  then show ?case by (simp add: run_def)
next
  case (Cons e es)
  obtain ms1 where 1: "messages (dispatch w e) = messages w @ ms1"
    using dispatch_prefix by blast
  obtain ms2 where 2: "messages (run es (dispatch w e)) = messages (dispatch w e) @ ms2"
    using Cons.IH by blast
  from 1 2 show ?case by (simp add: run_def)
qed

text \<open>
  Claim C10. A mounted widget starts from the empty transcript with the welcome message
  appended, which is assistant-typed; after any events the transcript is not empty and
  its first element is assistant-typed.
\<close>

theorem mounted_transcript_starts_with_welcome:
  "OttoChatWidget behave_as = Some w \<Longrightarrow>
     messages initial = [] \<and> messages w = messages initial @ [welcomeMessage]
     \<and> type welcomeMessage = Assistant
     \<and> messages (run es w) \<noteq> [] \<and> type (hd (messages (run es w))) = Assistant"
proof -
  assume "OttoChatWidget behave_as = Some w"
  then have m: "messages w = [welcomeMessage]"
    by (auto simp: OttoChatWidget_def welcomeEffect_def initial_def split: if_splits)
  obtain ms where "messages (run es w) = messages w @ ms"
    using run_prefix by blast
  with m show ?thesis by (simp add: initial_def welcomeMessage_def)
qed

theorem mounted_transcript_starts_with_welcome_witness:
  "OttoChatWidget (Some ''CLOUD'') = Some (welcomeEffect initial)
   \<and> messages (run [OpenChat, Typed ''hi'', Submit envNoSession] (welcomeEffect initial)) \<noteq> []
   \<and> type (hd (messages
        (run [OpenChat, Typed ''hi'', Submit envNoSession] (welcomeEffect initial)))) = Assistant"
proof -
  have mounted: "OttoChatWidget (Some ''CLOUD'') = Some (welcomeEffect initial)"
    by (simp add: OttoChatWidget_def)
  from mounted_transcript_starts_with_welcome
         [OF mounted, of "[OpenChat, Typed ''hi'', Submit envNoSession]"] mounted
  show ?thesis by simp
qed

section \<open>Properties of the credit-state controller\<close>

subsection \<open>Paging through the transaction history\<close>

text \<open>
  From any state of the hook: \<open>n\<close> calls that all resolve, each through the callback of
  the render current at the time, have asked the backend for exactly the pages
  \<open>pagesReturned\<close> lists, starting at the state's cursor, and have appended them in
  order.
\<close>

lemma fetchSeq_current:
  "fetchSeq api (replicate n 0) (transactionHistory s # older) (s, w) = Some (rs, s', w')
   \<Longrightarrow> \<forall>r \<in> set rs. r = Inr () \<Longrightarrow>
     \<exists>ps. pagesReturned n api (next_transaction_time (transactionHistory s)) w = Some ps
       \<and> length ps = n
       \<and> transactions (transactionHistory s')
           = transactions (transactionHistory s) @ concat (map transactions ps)
       \<and> next_transaction_time (transactionHistory s')
           = (if ps = [] then next_transaction_time (transactionHistory s)
              else next_transaction_time (last ps))"
proof (induction n arbitrary: s w rs s' w' older)
  case 0
  then show ?case by simp
next
  case (Suc n)
  obtain r s1 w1 where
    step: "fetchTransactionHistory api (transactionHistory s) (s, w) = (r, s1, w1)"
    by (cases "fetchTransactionHistory api (transactionHistory s) (s, w)") auto
  define renders where
    "renders = (case r of Inl e \<Rightarrow> transactionHistory s # older
                | Inr u \<Rightarrow> transactionHistory s1 # transactionHistory s # older)"
  from Suc.prems(1) step obtain rs1 s2 w2 where
    rest: "fetchSeq api (replicate n 0) renders (s1, w1) = Some (rs1, s2, w2)"
    and eqs: "rs = r # rs1" "s' = s2" "w' = w2"
    by (auto simp: renders_def)
  from eqs Suc.prems(2) have r: "r = Inr ()" and rs1: "\<forall>r \<in> set rs1. r = Inr ()"
    by simp_all
  from r have renders: "renders = transactionHistory s1 # transactionHistory s # older"
    by (simp add: renders_def)
  from step r obtain page where
    page: "getTransactionHistory api (next_transaction_time (transactionHistory s)) 20 w
             = (Inr page, w1)"
    and s1: "s1 = s\<lparr>transactionHistory :=
              \<lparr>transactions = transactions (transactionHistory s) @ transactions page,
               next_transaction_time = next_transaction_time page\<rparr>\<rparr>"
    by (auto simp: fetchTransactionHistory_def split: prod.splits sum.splits)
  from Suc.IH [OF rest [unfolded renders] rs1] obtain ps where
    ps: "pagesReturned n api (next_transaction_time (transactionHistory s1)) w1 = Some ps"
      "length ps = n"
      "transactions (transactionHistory s2)
         = transactions (transactionHistory s1) @ concat (map transactions ps)"
      "next_transaction_time (transactionHistory s2)
         = (if ps = [] then next_transaction_time (transactionHistory s1)
            else next_transaction_time (last ps))"
    by blast
  show ?case
  proof (intro exI [of _ "page # ps"] conjI)
    show "pagesReturned (Suc n) api (next_transaction_time (transactionHistory s)) w
        = Some (page # ps)"
      using page ps(1) s1 by simp
    show "length (page # ps) = Suc n"
      using ps(2) by simp
    show "transactions (transactionHistory s')
        = transactions (transactionHistory s) @ concat (map transactions (page # ps))"
      using ps(3) s1 eqs by simp
    show "next_transaction_time (transactionHistory s')
        = (if page # ps = [] then next_transaction_time (transactionHistory s)
           else next_transaction_time (last (page # ps)))"
      using ps(4) s1 eqs by simp
  qed
qed

text \<open>
  Claim C2, as stated, fails. Two calls go through the callback of the first render, as
  when the hook's own call on mount and a caller's call are both made before the first
  page has arrived. Both resolve; both have asked for the page at the null cursor,
  although the first one left the cursor 7, and the second has overwritten what the
  first appended: the history holds two transactions where the two pages returned held
  two each.
\<close>

theorem same_callback_twice_overwrites:
  "fetchCalls loggingApi [0] (useCredits, []) =
     Some ([Inr ()],
       useCredits\<lparr>transactionHistory :=
         \<lparr>transactions = [''top-up'', ''usage''], next_transaction_time = Some 7\<rparr>\<rparr>,
       [GetTransactionHistory None 20])
   \<and> fetchCalls loggingApi [0, 1] (useCredits, []) =
     Some ([Inr (), Inr ()],
       useCredits\<lparr>transactionHistory :=
         \<lparr>transactions = [''top-up'', ''usage''], next_transaction_time = Some 7\<rparr>\<rparr>,
       [GetTransactionHistory None 20, GetTransactionHistory None 20])
   \<and> length [''top-up'', ''usage'']
       \<noteq> length [''top-up'', ''usage''] + length [''top-up'', ''usage'']"
  by (simp add: fetchCalls_def fetchTransactionHistory_def loggingApi_def useCredits_def)

text \<open>
  Claim C2, amended. From the initial empty history, \<open>n\<close> calls of
  \<open>fetchTransactionHistory\<close> that all resolve, each made through the callback of the
  render current at the time of the call, have requested \<open>n\<close> pages of size 20, the first
  with no cursor and each later one with the cursor the page before it returned; the
  accumulated transactions are these pages one after the other, so their number is the
  sum of the page sizes; and after at least one call the cursor held is the one the last
  page returned, null exactly when that one is.
\<close>

theorem current_callback_accumulates_pages:
  assumes "fetchCalls api (replicate n 0) (useCredits, w) = Some (rs, s', w')"
    and "\<forall>r \<in> set rs. r = Inr ()"
  shows "\<exists>ps. pagesReturned n api None w = Some ps \<and> length ps = n
     \<and> transactions (transactionHistory s') = concat (map transactions ps)
     \<and> length (transactions (transactionHistory s'))
         = sum_list (map (\<lambda>p. length (transactions p)) ps)
     \<and> (0 < n \<longrightarrow>
          next_transaction_time (transactionHistory s') = next_transaction_time (last ps)
          \<and> (next_transaction_time (transactionHistory s') = None
               \<longleftrightarrow> next_transaction_time (last ps) = None))"
proof -
  from assms(1) have
    "fetchSeq api (replicate n 0) (transactionHistory useCredits # []) (useCredits, w)
       = Some (rs, s', w')"
    by (simp add: fetchCalls_def)
  from fetchSeq_current [OF this assms(2)] obtain ps where
    ps: "pagesReturned n api None w = Some ps" "length ps = n"
      "transactions (transactionHistory s') = concat (map transactions ps)"
      "next_transaction_time (transactionHistory s')
         = (if ps = [] then None else next_transaction_time (last ps))"
    by (auto simp: useCredits_def)
  have "length (concat (map transactions ps))
      = sum_list (map (\<lambda>p. length (transactions p)) ps)"
    by (simp add: length_concat comp_def)
  with ps show ?thesis by auto
qed

theorem current_callback_accumulates_pages_witness:
  "fetchCalls loggingApi (replicate 2 0) (useCredits, []) =
     Some ([Inr (), Inr ()],
       useCredits\<lparr>transactionHistory :=
         \<lparr>transactions = [''top-up'', ''usage'', ''grant''], next_transaction_time = None\<rparr>\<rparr>,
       [GetTransactionHistory None 20, GetTransactionHistory (Some 7) 20])
   \<and> list_all (\<lambda>r. r = Inr ()) [Inr () :: thrown + unit, Inr ()]
   \<and> pagesReturned 2 loggingApi None [] =
       Some [\<lparr>transactions = [''top-up'', ''usage''], next_transaction_time = Some 7\<rparr>,
             \<lparr>transactions = [''grant''], next_transaction_time = None\<rparr>]
   \<and> length [''top-up'', ''usage'', ''grant''] = 2 + (1 :: nat)"
proof -
  have run: "fetchCalls loggingApi (replicate 2 0) (useCredits, []) =
     Some ([Inr (), Inr ()],
       useCredits\<lparr>transactionHistory :=
         \<lparr>transactions = [''top-up'', ''usage'', ''grant''], next_transaction_time = None\<rparr>\<rparr>,
       [GetTransactionHistory None 20, GetTransactionHistory (Some 7) 20])"
    by (simp add: numeral_2_eq_2 fetchCalls_def fetchTransactionHistory_def loggingApi_def
          useCredits_def)
  have resolved: "\<forall>r \<in> set [Inr () :: thrown + unit, Inr ()]. r = Inr ()"
    by simp
  have pages: "pagesReturned 2 loggingApi None [] =
       Some [\<lparr>transactions = [''top-up'', ''usage''], next_transaction_time = Some 7\<rparr>,
             \<lparr>transactions = [''grant''], next_transaction_time = None\<rparr>]"
    by (simp add: numeral_2_eq_2 loggingApi_def)
  from current_callback_accumulates_pages [OF run resolved] run pages
  show ?thesis by simp
qed

subsection \<open>Updating the auto-top-up configuration\<close>

text \<open>
  Claim C4, as stated, fails. When the write is rejected no read is issued (the backend
  has received the write only) and no configuration is held; when the read that follows
  the write is rejected, no configuration is held either.
\<close>

theorem update_without_read:
  "updateAutoTopUpConfig rejectingApi 10 20 (useCredits, [])
     = (Inl (Error ''Network Error''), useCredits,
        [SetAutoTopUpConfig \<lparr>amount = 10, threshold = 20\<rparr>])
   \<and> updateAutoTopUpConfig unreadableApi 10 20 (useCredits, [])
     = (Inr (), useCredits,
        [SetAutoTopUpConfig \<lparr>amount = 10, threshold = 20\<rparr>, GetAutoTopUpConfig])
   \<and> autoTopUpConfig (useCredits :: (string, nat) Credits) = None"
  by (simp add: updateAutoTopUpConfig_def fetchAutoTopUpConfig_def rejectingApi_def
        unreadableApi_def loggingApi_def useCredits_def)

text \<open>
  Claim C4, amended. The call first issues the write. When the write resolves, the
  read is issued on the backend as the write left it, and when the read resolves the
  configuration held is the one the read returned, whatever the parameters were; when
  the read is rejected the state is unchanged. When the write is rejected, the call
  rejects with the same error, no read is issued and the state is unchanged.
\<close>

theorem update_holds_what_the_read_returned:
  "(setAutoTopUpConfig api \<lparr>amount = amt, threshold = thr\<rparr> w = (Inr u, w1) \<longrightarrow>
      getAutoTopUpConfig api w1 = (Inr c, w2) \<longrightarrow>
      updateAutoTopUpConfig api amt thr (s, w) = (Inr (), s\<lparr>autoTopUpConfig := Some c\<rparr>, w2))
   \<and> (setAutoTopUpConfig api \<lparr>amount = amt, threshold = thr\<rparr> w = (Inr u, w1) \<longrightarrow>
      getAutoTopUpConfig api w1 = (Inl e, w2) \<longrightarrow>
      updateAutoTopUpConfig api amt thr (s, w) = (Inr (), s, w2))
   \<and> (setAutoTopUpConfig api \<lparr>amount = amt, threshold = thr\<rparr> w = (Inl e, w1) \<longrightarrow>
      updateAutoTopUpConfig api amt thr (s, w) = (Inl e, s, w1))"
  by (simp add: updateAutoTopUpConfig_def fetchAutoTopUpConfig_def)

theorem update_holds_what_the_read_returned_witness:
  "setAutoTopUpConfig loggingApi \<lparr>amount = 10, threshold = 20\<rparr> []
     = (Inr (), [SetAutoTopUpConfig \<lparr>amount = 10, threshold = 20\<rparr>])
   \<and> getAutoTopUpConfig loggingApi [SetAutoTopUpConfig \<lparr>amount = 10, threshold = 20\<rparr>]
     = (Inr \<lparr>amount = 500, threshold = 100\<rparr>,
        [SetAutoTopUpConfig \<lparr>amount = 10, threshold = 20\<rparr>, GetAutoTopUpConfig])
   \<and> updateAutoTopUpConfig loggingApi 10 20 (useCredits, [])
     = (Inr (), useCredits\<lparr>autoTopUpConfig := Some \<lparr>amount = 500, threshold = 100\<rparr>\<rparr>,
        [SetAutoTopUpConfig \<lparr>amount = 10, threshold = 20\<rparr>, GetAutoTopUpConfig])
   \<and> \<lparr>amount = 500, threshold = 100\<rparr> \<noteq> \<lparr>amount = 10, threshold = 20\<rparr>"
proof -
  have wr: "setAutoTopUpConfig loggingApi \<lparr>amount = 10, threshold = 20\<rparr> []
     = (Inr (), [SetAutoTopUpConfig \<lparr>amount = 10, threshold = 20\<rparr>])"
    by (simp add: loggingApi_def)
  have rd: "getAutoTopUpConfig loggingApi [SetAutoTopUpConfig \<lparr>amount = 10, threshold = 20\<rparr>]
     = (Inr \<lparr>amount = 500, threshold = 100\<rparr>,
        [SetAutoTopUpConfig \<lparr>amount = 10, threshold = 20\<rparr>, GetAutoTopUpConfig])"
    by (simp add: loggingApi_def)
  from update_holds_what_the_read_returned
         [of loggingApi 10 20 "[]" "()"
             "[SetAutoTopUpConfig \<lparr>amount = 10, threshold = 20\<rparr>]"
             "\<lparr>amount = 500, threshold = 100\<rparr>"
             "[SetAutoTopUpConfig \<lparr>amount = 10, threshold = 20\<rparr>, GetAutoTopUpConfig]"
             useCredits]
       wr rd
  show ?thesis by simp
qed

section \<open>Properties of the selection wizard step\<close>

text \<open>
  Claim C8. With both cards loaded, a click on the second card followed by a click on
  the first leaves the wizard state with the first card's slug and creator, the rest of
  the state untouched: the same state as a click on the first card alone.
\<close>

theorem last_selection_wins:
  "1 < length agents \<Longrightarrow>
     Option.bind (onClick agents 1 st) (onClick agents 0)
       = Some (st\<lparr>selectedAgentSlug := Some (slug (agents ! 0)),
                  selectedAgentCreator := Some (creator (agents ! 0))\<rparr>)
     \<and> Option.bind (onClick agents 1 st) (onClick agents 0) = onClick agents 0 st"
  by (auto simp: onClick_def setState_def)

theorem last_selection_wins_witness:
  "1 < length sampleAgents
   \<and> onClick sampleAgents 1 noSelection
       = Some \<lparr>selectedAgentSlug = Some ''power'', selectedAgentCreator = Some ''autogpt''\<rparr>
   \<and> Option.bind (onClick sampleAgents 1 noSelection) (onClick sampleAgents 0)
       = Some \<lparr>selectedAgentSlug = Some ''subtractor'',
               selectedAgentCreator = Some ''bright-eagle-40613''\<rparr>"
proof -
  have loaded: "1 < length sampleAgents"
    by (simp add: sampleAgents_def)
  from last_selection_wins [OF loaded, of noSelection] loaded
  show ?thesis by (simp add: sampleAgents_def noSelection_def onClick_def setState_def)
qed

end
